theory Spec2Isabelle
  imports Complex_Main
begin

section \<open>JavaScript numbers\<close>

text \<open>
  The source computes on JavaScript numbers. They are modelled as real numbers extended
  with the three special values a division can produce: \<open>PInf\<close>, \<open>NInf\<close> and
  \<open>NaN\<close>. Rounding and overflow are not modelled: finite arithmetic is exact, so the
  theorems below are about the formulas of the source under real arithmetic, and the
  special values appear only where the source divides by zero.
\<close>

datatype jsnum = Fin real | PInf | NInf | NaN

text \<open>
  \<open>a / b\<close> on finite operands. The only divisor that can be zero in the source is
  \<open>palmSize * 1.6\<close>, a sum of square roots, so a zero divisor is \<open>+0\<close>.
\<close>

definition js_div :: "real \<Rightarrow> real \<Rightarrow> jsnum" where
  "js_div a b =
     (if b \<noteq> 0 then Fin (a / b)
      else if 0 < a then PInf
      else if a < 0 then NInf
      else NaN)"

text \<open>\<open>Math.max\<close> and \<open>Math.min\<close>: \<open>NaN\<close> if either argument is \<open>NaN\<close>.\<close>

fun js_max :: "jsnum \<Rightarrow> jsnum \<Rightarrow> jsnum" where
  "js_max NaN _ = NaN"
| "js_max _ NaN = NaN"
| "js_max PInf _ = PInf"
| "js_max _ PInf = PInf"
| "js_max NInf b = b"
| "js_max a NInf = a"
| "js_max (Fin a) (Fin b) = Fin (max a b)"

fun js_min :: "jsnum \<Rightarrow> jsnum \<Rightarrow> jsnum" where
  "js_min NaN _ = NaN"
| "js_min _ NaN = NaN"
| "js_min NInf _ = NInf"
| "js_min _ NInf = NInf"
| "js_min PInf b = b"
| "js_min a PInf = a"
| "js_min (Fin a) (Fin b) = Fin (min a b)"

fun js_add :: "jsnum \<Rightarrow> jsnum \<Rightarrow> jsnum" where
  "js_add NaN _ = NaN"
| "js_add _ NaN = NaN"
| "js_add (Fin a) (Fin b) = Fin (a + b)"
| "js_add PInf NInf = NaN"
| "js_add NInf PInf = NaN"
| "js_add PInf _ = PInf"
| "js_add _ PInf = PInf"
| "js_add NInf _ = NInf"
| "js_add _ NInf = NInf"

fun js_neg :: "jsnum \<Rightarrow> jsnum" where
  "js_neg NaN = NaN"
| "js_neg (Fin a) = Fin (- a)"
| "js_neg PInf = NInf"
| "js_neg NInf = PInf"

definition js_sub :: "jsnum \<Rightarrow> jsnum \<Rightarrow> jsnum" where
  "js_sub a b = js_add a (js_neg b)"

text \<open>An infinity times a finite number: the sign decides, and zero gives \<open>NaN\<close>.\<close>

definition inf_times :: "bool \<Rightarrow> real \<Rightarrow> jsnum" where
  "inf_times positive b =
     (if b = 0 then NaN else if (0 < b) = positive then PInf else NInf)"

fun js_mul :: "jsnum \<Rightarrow> jsnum \<Rightarrow> jsnum" where
  "js_mul NaN _ = NaN"
| "js_mul _ NaN = NaN"
| "js_mul (Fin a) (Fin b) = Fin (a * b)"
| "js_mul PInf (Fin b) = inf_times True b"
| "js_mul NInf (Fin b) = inf_times False b"
| "js_mul (Fin a) PInf = inf_times True a"
| "js_mul (Fin a) NInf = inf_times False a"
| "js_mul PInf PInf = PInf"
| "js_mul NInf NInf = PInf"
| "js_mul PInf NInf = NInf"
| "js_mul NInf PInf = NInf"

text \<open>\<open>a > b\<close>: false whenever an operand is \<open>NaN\<close>.\<close>

fun js_gt :: "jsnum \<Rightarrow> jsnum \<Rightarrow> bool" where
  "js_gt NaN _ = False"
| "js_gt _ NaN = False"
| "js_gt (Fin a) (Fin b) = (b < a)"
| "js_gt PInf PInf = False"
| "js_gt PInf _ = True"
| "js_gt NInf _ = False"
| "js_gt (Fin a) NInf = True"
| "js_gt (Fin a) PInf = False"

section \<open>Gesture interpreter (HandTracker)\<close>

subsection \<open>Data\<close>

text \<open>
  A \<open>NormalizedLandmark\<close> of the detector: three finite coordinates. The source reads
  \<open>z\<close> as \<open>a.z || 0\<close>, which is \<open>z\<close> itself for every finite number.
\<close>

record landmark =
  lm_x :: real
  lm_y :: real
  lm_z :: real

record HandControls =
  zoom :: jsnum
  panX :: real
  panY :: real
  hasBothHands :: bool

record vec2 =
  vx :: real
  vy :: real

text \<open>The refs of the component that \<open>processFrame\<close> reads and writes.\<close>

record tracker =
  lastVideoTime :: real
  lastPan :: vec2
  lastZoom :: jsnum
  baseWristPos :: "vec2 option"
  controlsRef :: HandControls

definition initial_tracker :: tracker where
  "initial_tracker =
     \<lparr>lastVideoTime = - 1,
      lastPan = \<lparr>vx = 0, vy = 0\<rparr>,
      lastZoom = Fin 1,
      baseWristPos = None,
      controlsRef = \<lparr>zoom = Fin 1, panX = 0, panY = 0, hasBothHands = False\<rparr>\<rparr>"

datatype error = TypeError

subsection \<open>Tension\<close>

definition distance3d :: "landmark \<Rightarrow> landmark \<Rightarrow> real" where
  "distance3d a b =
     (let dx = lm_x a - lm_x b;
          dy = lm_y a - lm_y b;
          dz = lm_z a - lm_z b
      in sqrt (dx * dx + dy * dy + dz * dz))"

definition fingerTipIndices :: "nat list" where
  "fingerTipIndices = [4, 8, 12, 16, 20]"

definition baseIndices :: "nat list" where
  "baseIndices = [5, 9, 13, 17]"

text \<open>The two averages of \<open>computeTension\<close>, for a hand that has all its landmarks.\<close>

definition avgTip :: "landmark list \<Rightarrow> real" where
  "avgTip landmarks =
     (let wrist = landmarks ! 0;
          fingerTips = map (\<lambda>i. landmarks ! i) fingerTipIndices
      in foldl (\<lambda>acc tip. acc + distance3d tip wrist) 0 fingerTips / real (length fingerTips))"

definition palmSize :: "landmark list \<Rightarrow> real" where
  "palmSize landmarks =
     (let wrist = landmarks ! 0;
          bases = map (\<lambda>i. landmarks ! i) baseIndices
      in foldl (\<lambda>acc base. acc + distance3d base wrist) 0 bases / real (length bases))"

text \<open>
  \<open>computeTension\<close>. Reading an index past the end of the array gives \<open>undefined\<close>,
  and \<open>distance3d\<close> then throws a \<open>TypeError\<close> on \<open>a.x\<close>; the largest index read is
  20, so the function throws exactly when the hand has fewer than 21 landmarks.
\<close>

definition computeTension :: "landmark list \<Rightarrow> error + jsnum" where
  "computeTension landmarks =
     (if length landmarks < 21 then Inl TypeError
      else
        let openRatio = js_div (avgTip landmarks) (palmSize landmarks * 1.6);
            tension = js_sub (Fin 1) (js_min (js_max openRatio (Fin 0)) (Fin 1))
        in Inr (js_min (js_max tension (Fin 0)) (Fin 1)))"

subsection \<open>One tick of \<open>processFrame\<close>\<close>

text \<open>
  What one call of \<open>processFrame\<close> finds: either the detector or the video element is
  missing, or there is a video with its \<open>currentTime\<close> and the hands the detector
  returns for it (\<open>result.landmarks ?? []\<close>).
\<close>

datatype tick = Unavailable | Video real "landmark list list"

text \<open>
  What one call does: the refs afterwards, the signal passed to \<open>onControls\<close> (if any),
  whether \<open>requestAnimationFrame(processFrame)\<close> was called, and the exception thrown
  (if any).
\<close>

record frame_result =
  next_state :: tracker
  emitted :: "HandControls option"
  rescheduled :: bool
  thrown :: "error option"

text \<open>\<open>THREE.MathUtils.clamp(value, min, max) = Math.max(min, Math.min(max, value))\<close>.\<close>

definition clamp :: "real \<Rightarrow> real \<Rightarrow> real \<Rightarrow> real" where
  "clamp v lo hi = max lo (min hi v)"

text \<open>The branch \<open>hands.length >= 1\<close>, after \<open>computeTension\<close> has returned.\<close>

definition hand_branch :: "tracker \<Rightarrow> landmark list \<Rightarrow> jsnum \<Rightarrow> frame_result" where
  "hand_branch s hand tension =
     (let wrist = hand ! 0;
          isFistClosed = js_gt tension (Fin 0.7);
          base = (case baseWristPos s of
                    None \<Rightarrow> \<lparr>vx = lm_x wrist, vy = lm_y wrist\<rparr>
                  | Some b \<Rightarrow> b);
          targetZoom = js_add (Fin 0.5) (js_mul tension (Fin 2.0));
          zoom' = js_add (js_mul (lastZoom s) (Fin 0.7)) (js_mul targetZoom (Fin 0.3));
          s1 = s\<lparr>baseWristPos := Some base, lastZoom := zoom'\<rparr>
      in if isFistClosed then
           let dx = (lm_x wrist - vx base) * 6.0;
               dy = - (lm_y wrist - vy base) * 6.0;
               pan = \<lparr>vx = vx (lastPan s1) * 0.6 + dx * 0.4,
                      vy = vy (lastPan s1) * 0.6 + dy * 0.4\<rparr>;
               c = \<lparr>zoom = js_min (js_max zoom' (Fin 0.5)) (Fin 2.5),
                    panX = clamp (vx pan) (- 1) 1,
                    panY = clamp (vy pan) (- 1) 1,
                    hasBothHands = False\<rparr>
           in \<lparr>next_state = s1\<lparr>lastPan := pan, controlsRef := c\<rparr>,
               emitted = Some c, rescheduled = True, thrown = None\<rparr>
         else
           let pan = \<lparr>vx = vx (lastPan s1) * 0.85, vy = vy (lastPan s1) * 0.85\<rparr>;
               c = \<lparr>zoom = js_min (js_max zoom' (Fin 0.5)) (Fin 2.5),
                    panX = vx pan,
                    panY = vy pan,
                    hasBothHands = False\<rparr>
           in \<lparr>next_state = s1\<lparr>baseWristPos := Some \<lparr>vx = lm_x wrist, vy = lm_y wrist\<rparr>,
                                 lastPan := pan, controlsRef := c\<rparr>,
               emitted = Some c, rescheduled = True, thrown = None\<rparr>)"

text \<open>The branch with no hand.\<close>

definition no_hand_branch :: "tracker \<Rightarrow> frame_result" where
  "no_hand_branch s =
     (let pan = \<lparr>vx = vx (lastPan s) * 0.9, vy = vy (lastPan s) * 0.9\<rparr>;
          c = (controlsRef s)\<lparr>panX := vx pan, panY := vy pan, hasBothHands := False\<rparr>
      in \<lparr>next_state = s\<lparr>baseWristPos := None, lastPan := pan, controlsRef := c\<rparr>,
          emitted = Some c, rescheduled = True, thrown = None\<rparr>)"

text \<open>
  \<open>processFrame\<close>. An exception of \<open>computeTension\<close> leaves the callback after
  \<open>lastVideoTime\<close> was written and before anything else is: nothing is emitted and no
  further frame is requested.
\<close>

definition processFrame :: "tracker \<Rightarrow> tick \<Rightarrow> frame_result" where
  "processFrame s tk =
     (case tk of
        Unavailable \<Rightarrow>
          \<lparr>next_state = s, emitted = None, rescheduled = False, thrown = None\<rparr>
      | Video currentTime hands \<Rightarrow>
          if lastVideoTime s = currentTime then
            \<lparr>next_state = s, emitted = None, rescheduled = True, thrown = None\<rparr>
          else
            let s0 = s\<lparr>lastVideoTime := currentTime\<rparr>
            in (case hands of
                  hand # _ \<Rightarrow>
                    (case computeTension hand of
                       Inl e \<Rightarrow>
                         \<lparr>next_state = s0, emitted = None, rescheduled = False,
                          thrown = Some e\<rparr>
                     | Inr tension \<Rightarrow> hand_branch s0 hand tension)
                | [] \<Rightarrow> no_hand_branch s0))"

text \<open>
  A run of ticks: the next tick happens only if the previous one requested it.
\<close>

fun run_frames :: "tracker \<Rightarrow> tick list \<Rightarrow> tracker" where
  "run_frames s [] = s"
| "run_frames s (tk # tks) =
     (let r = processFrame s tk
      in if rescheduled r then run_frames (next_state r) tks else next_state r)"

section \<open>Procedural geometry generator (geometryFactory)\<close>

subsection \<open>The random source\<close>

text \<open>
  \<open>Math.random()\<close> is modelled by the sequence of its future results: a draw returns
  the first element and leaves the rest. The contract of \<open>Math.random\<close>, every result
  in \<open>[0, 1)\<close>, is the predicate \<open>valid_rng\<close>.
\<close>

type_synonym rng = "nat \<Rightarrow> real"

definition random :: "rng \<Rightarrow> real \<times> rng" where
  "random g = (g 0, \<lambda>n. g (Suc n))"

definition valid_rng :: "rng \<Rightarrow> bool" where
  "valid_rng g = (\<forall>n. 0 \<le> g n \<and> g n < 1)"

definition rand :: "real \<Rightarrow> real \<Rightarrow> rng \<Rightarrow> real \<times> rng" where
  "rand lo hi g = (let (u, g1) = random g in (u * (hi - lo) + lo, g1))"

subsection \<open>The point functions\<close>

text \<open>A point is the three-element array \<open>[x, y, z]\<close> the point functions return.\<close>

type_synonym point = "real \<times> real \<times> real"

definition randomOnSphere :: "real \<Rightarrow> rng \<Rightarrow> point \<times> rng" where
  "randomOnSphere radius g =
     (let (u, g1) = random g;
          (v, g2) = random g1;
          theta = 2 * pi * u;
          phi = arccos (2 * v - 1);
          x = radius * sin phi * cos theta;
          y = radius * sin phi * sin theta;
          z = radius * cos phi
      in ((x, y, z), g2))"

definition randomInSphere :: "real \<Rightarrow> rng \<Rightarrow> point \<times> rng" where
  "randomInSphere radius g =
     (let (u, g1) = random g;
          (v, g2) = random g1;
          (w, g3) = random g2;
          r = radius * root 3 u;
          theta = 2 * pi * v;
          phi = arccos (2 * w - 1);
          x = r * sin phi * cos theta;
          y = r * sin phi * sin theta;
          z = r * cos phi
      in ((x, y, z), g3))"

definition heartPoint :: "rng \<Rightarrow> point \<times> rng" where
  "heartPoint g =
     (let (t, g1) = rand 0 pi g;
          (r, g2) = rand 0.72 1 g1;
          x2d = 16 * sin t ^ 3;
          y2d = 13 * cos t - 5 * cos (2 * t) - 2 * cos (3 * t) - cos (4 * t);
          scale = 0.025 * r;
          (depth, g3) = rand (- 0.35) 0.35 g2;
          (angle, g4) = rand 0 (pi * 2) g3;
          x = x2d * scale * cos angle - depth * sin angle;
          z = x2d * scale * sin angle + depth * cos angle;
          y = y2d * scale
      in ((x, y, z), g4))"

text \<open>
  \<open>phyllotaxisPoint\<close> and \<open>saturnPoint\<close> divide by \<open>total\<close>. Their only caller is
  the loop of \<open>generateGeometry\<close>, with \<open>i < count\<close>, so the divisor is never zero
  there; the theorems below are stated for \<open>i < total\<close>.
\<close>

definition phyllotaxisPoint :: "nat \<Rightarrow> nat \<Rightarrow> point" where
  "phyllotaxisPoint i total' =
     (let golden = pi * (3 - sqrt 5);
          radius = sqrt (real i / real total') * 1.25;
          theta = real i * golden;
          x = radius * cos theta;
          z = radius * sin theta;
          y = sin (radius * 1.3) * 0.35
      in (x, y, z))"

text \<open>The local constant \<open>useRing\<close> of \<open>saturnPoint\<close>.\<close>

definition useRing :: "nat \<Rightarrow> nat \<Rightarrow> bool" where
  "useRing i total' = (real i / real total' > 0.4)"

definition saturnPoint :: "nat \<Rightarrow> nat \<Rightarrow> rng \<Rightarrow> point \<times> rng" where
  "saturnPoint i total' g =
     (let ringRatio = 0.45
      in if useRing i total' then
           let (radius, g1) = rand 1.4 2.1 g;
               (angle, g2) = rand 0 (pi * 2) g1;
               (thickness, g3) = rand (- 0.12) 0.12 g2;
               x = radius * cos angle;
               z = radius * sin angle
           in ((x, thickness, z), g3)
         else randomOnSphere (1 - ringRatio) g)"

definition buddhaPoint :: "rng \<Rightarrow> point \<times> rng" where
  "buddhaPoint g =
     (let (region, g1) = random g
      in if region < 0.35 then
           let ((x, y, z), g2) = randomOnSphere 0.55 g1
           in ((x, y + 1.1, z), g2)
         else if region < 0.75 then
           let ((x, y, z), g2) = randomInSphere 1 g1
           in ((x * 0.8, y * 0.9, z * 0.6), g2)
         else
           let (angle, g2) = rand 0 (pi * 2) g1;
               (r, g3) = rand 0.9 1.2 g2;
               (tube, g4) = rand (- 0.22) 0.22 g3;
               x = (r + tube * cos angle) * cos angle;
               z = (r + tube * sin angle) * sin angle
           in ((x, tube - 1.05, z), g4))"

subsection \<open>\<open>generateGeometry\<close>\<close>

text \<open>
  The six shapes the interface offers, and \<open>Other\<close> for any value that reaches the
  \<open>default\<close> case of the \<open>switch\<close>.
\<close>

datatype ShapeType = Heart | Flower | Saturn | Buddha | Fireworks | Sphere | Other

text \<open>The \<open>switch\<close> of the loop body.\<close>

fun shapePoint :: "ShapeType \<Rightarrow> nat \<Rightarrow> nat \<Rightarrow> rng \<Rightarrow> point \<times> rng" where
  "shapePoint Sphere i count g = randomOnSphere 1.1 g"
| "shapePoint Heart i count g = heartPoint g"
| "shapePoint Flower i count g = (phyllotaxisPoint i count, g)"
| "shapePoint Saturn i count g = saturnPoint i count g"
| "shapePoint Buddha i count g = buddhaPoint g"
| "shapePoint Fireworks i count g = (let (radius, g1) = rand 1 1.8 g in randomInSphere radius g1)"
| "shapePoint Other i count g = randomOnSphere 1 g"

text \<open>
  The \<open>for\<close> loop, from index \<open>i\<close> on. The \<open>Float32Array\<close> is a list of reals
  (its rounding to single precision is not modelled); the three writes of an iteration
  are in range because the array has \<open>count * 3\<close> elements.
\<close>

function generate_loop ::
  "ShapeType \<Rightarrow> nat \<Rightarrow> nat \<Rightarrow> real list \<Rightarrow> rng \<Rightarrow> real list \<times> rng" where
  "generate_loop ty count i positions g =
     (if i < count then
        let ((x, y, z), g1) = shapePoint ty i count g
        in generate_loop ty count (i + 1)
             (positions[i * 3 := x, i * 3 + 1 := y, i * 3 + 2 := z]) g1
      else (positions, g))"
  by pat_completeness auto
termination
  by (relation "measure (\<lambda>(ty, count, i, positions, g). count - i)") auto

declare generate_loop.simps [simp del]

definition generateGeometry :: "ShapeType \<Rightarrow> nat \<Rightarrow> rng \<Rightarrow> real list" where
  "generateGeometry ty count g = fst (generate_loop ty count 0 (replicate (count * 3) 0) g)"

section \<open>Notions the properties are stated with\<close>

subsection \<open>Gesture interpreter\<close>

text \<open>The magnitude of the pan vector held in \<open>lastPan\<close>.\<close>

definition pan_magnitude :: "tracker \<Rightarrow> real" where
  "pan_magnitude s = sqrt (vx (lastPan s) * vx (lastPan s) + vy (lastPan s) * vy (lastPan s))"

text \<open>\<open>K\<close> consecutive ticks on which the detector finds no hand, at the video times \<open>ts\<close>.\<close>

definition no_hand_ticks :: "(nat \<Rightarrow> real) \<Rightarrow> nat \<Rightarrow> tick list" where
  "no_hand_ticks ts K = map (\<lambda>k. Video (ts k) []) [0..<K]"

text \<open>
  A hand of 21 landmarks with the wrist at \<open>(wx, wy, 0)\<close>, the four finger bases one unit
  behind it and the five fingertips \<open>tipz\<close> units behind it: a closed fist for
  \<open>tipz = 0\<close> (tension 1), an open hand for \<open>tipz = 2\<close> (tension 0).
\<close>

definition test_hand :: "real \<Rightarrow> real \<Rightarrow> real \<Rightarrow> landmark list" where
  "test_hand wx wy tipz =
     map (\<lambda>i. \<lparr>lm_x = wx, lm_y = wy,
                lm_z = (if i \<in> set baseIndices then 1
                        else if i \<in> set fingerTipIndices then tipz else 0)\<rparr>) [0..<21]"

text \<open>A hand whose 21 landmarks all coincide.\<close>

definition point_hand :: "landmark list" where
  "point_hand = replicate 21 \<lparr>lm_x = 0, lm_y = 0, lm_z = 0\<rparr>"

text \<open>The tracker with an anchor latched, and the tracker with a pan left over.\<close>

definition anchored_tracker :: tracker where
  "anchored_tracker = initial_tracker\<lparr>baseWristPos := Some \<lparr>vx = 0.4, vy = 0.5\<rparr>\<rparr>"

definition panned_tracker :: tracker where
  "panned_tracker = initial_tracker\<lparr>lastPan := \<lparr>vx = 0.5, vy = - 0.3\<rparr>\<rparr>"

subsection \<open>Geometry generator\<close>

text \<open>The \<open>i\<close>-th point of a buffer of interleaved coordinates.\<close>

definition triple :: "real list \<Rightarrow> nat \<Rightarrow> point" where
  "triple positions i = (positions ! (i * 3), positions ! (i * 3 + 1), positions ! (i * 3 + 2))"

text \<open>
  Distance from the origin, distance from the vertical (\<open>y\<close>) axis, and height of a point.
\<close>

fun dist_origin :: "point \<Rightarrow> real" where
  "dist_origin (x, y, z) = sqrt (x * x + y * y + z * z)"

fun axis_distance :: "point \<Rightarrow> real" where
  "axis_distance (x, y, z) = sqrt (x * x + z * z)"

fun y_coord :: "point \<Rightarrow> real" where
  "y_coord (x, y, z) = y"

text \<open>The two regions of the saturn shape: the planet's shell and the flat ring.\<close>

definition on_planet :: "point \<Rightarrow> bool" where
  "on_planet p = (dist_origin p = 0.55)"

definition on_ring :: "point \<Rightarrow> bool" where
  "on_ring p = (1.4 \<le> axis_distance p \<and> axis_distance p \<le> 2.1
                \<and> - 0.12 \<le> y_coord p \<and> y_coord p \<le> 0.12)"

text \<open>How many of the \<open>n\<close> indices take each branch of \<open>saturnPoint\<close>.\<close>

definition planet_count :: "nat \<Rightarrow> nat" where
  "planet_count n = length (filter (\<lambda>i. \<not> useRing i n) [0..<n])"

definition ring_count :: "nat \<Rightarrow> nat" where
  "ring_count n = length (filter (\<lambda>i. useRing i n) [0..<n])"

text \<open>A random source whose every draw is one half.\<close>

definition half_rng :: rng where
  "half_rng = (\<lambda>n. 1 / 2)"

section \<open>Properties of the gesture interpreter\<close>

subsection \<open>Evaluating the test hands\<close>

lemma length_test_hand: "length (test_hand wx wy tz) = 21"
  by (simp add: test_hand_def)

lemma test_hand_nth:
  "i < 21 \<Longrightarrow> test_hand wx wy tz ! i =
     \<lparr>lm_x = wx, lm_y = wy,
      lm_z = (if i \<in> set baseIndices then 1
              else if i \<in> set fingerTipIndices then tz else 0)\<rparr>"
  by (simp add: test_hand_def)

lemma avgTip_closed: "avgTip (test_hand wx wy 0) = 0"
  by (simp add: avgTip_def test_hand_nth fingerTipIndices_def baseIndices_def distance3d_def)

lemma avgTip_open: "avgTip (test_hand wx wy 2) = 2"
  by (simp add: avgTip_def test_hand_nth fingerTipIndices_def baseIndices_def distance3d_def)

lemma palmSize_test_hand: "palmSize (test_hand wx wy tz) = 1"
  by (simp add: palmSize_def test_hand_nth fingerTipIndices_def baseIndices_def distance3d_def)

lemma computeTension_closed: "computeTension (test_hand wx wy 0) = Inr (Fin 1)"
  by (simp add: computeTension_def length_test_hand avgTip_closed palmSize_test_hand
        js_div_def js_sub_def)

lemma computeTension_open: "computeTension (test_hand wx wy 2) = Inr (Fin 0)"
  by (simp add: computeTension_def length_test_hand avgTip_open palmSize_test_hand
        js_div_def js_sub_def)

lemma avgTip_point_hand: "avgTip point_hand = 0"
  by (simp add: point_hand_def avgTip_def fingerTipIndices_def distance3d_def)

lemma palmSize_point_hand: "palmSize point_hand = 0"
  by (simp add: point_hand_def palmSize_def baseIndices_def distance3d_def)

subsection \<open>Tension\<close>

lemma distance3d_nonneg: "0 \<le> distance3d a b"
  by (simp add: distance3d_def Let_def)

lemma avgTip_nonneg: "0 \<le> avgTip hand"
  by (simp add: avgTip_def fingerTipIndices_def distance3d_nonneg Let_def)

lemma palmSize_nonneg: "0 \<le> palmSize hand"
  by (simp add: palmSize_def baseIndices_def distance3d_nonneg Let_def)

lemma clamp_range: "lo \<le> hi \<Longrightarrow> lo \<le> clamp v lo hi \<and> clamp v lo hi \<le> hi"
  by (simp add: clamp_def)

text \<open>
  The value of \<open>computeTension\<close> by cases on the divisor: the clamps absorb an infinite
  ratio, and only \<open>0 / 0\<close> survives as \<open>NaN\<close>.
\<close>

lemma computeTension_cases:
  assumes "21 \<le> length hand"
  shows "computeTension hand = Inr
     (if palmSize hand \<noteq> 0
        then Fin (clamp (1 - clamp (avgTip hand / (palmSize hand * 1.6)) 0 1) 0 1)
      else if 0 < avgTip hand then Fin 0
      else if avgTip hand < 0 then Fin 1
      else NaN)"
  using assms
  by (simp add: computeTension_def js_div_def js_sub_def clamp_def Let_def min_def max_def)

lemma computeTension_shape:
  assumes "21 \<le> length hand"
  shows "computeTension hand = Inr NaN
         \<or> (\<exists>\<tau>. computeTension hand = Inr (Fin \<tau>) \<and> 0 \<le> \<tau> \<and> \<tau> \<le> 1)"
  using clamp_range [of 0 1 "1 - clamp (avgTip hand / (palmSize hand * 1.6)) 0 1"]
  by (simp add: computeTension_cases [OF assms])

text \<open>
  Claim C3, at a degenerate input. The claim gives every hand of 21 landmarks a tension in
  \<open>[0, 1]\<close>, equal to 1 when the average fingertip distance is 0 and equal to 0 when it
  is at least 1.6 times the average base distance. On a hand whose landmarks all coincide
  both averages are 0, so both special cases apply at once, and \<open>computeTension\<close>
  returns \<open>NaN\<close> (the ratio is \<open>0 / 0\<close>).
\<close>

theorem computeTension_point_hand_counterexample:
  "length point_hand = 21 \<and> avgTip point_hand = 0 \<and> palmSize point_hand = 0
   \<and> computeTension point_hand = Inr NaN"
  by (simp add: computeTension_def avgTip_point_hand palmSize_point_hand js_div_def js_sub_def)
    (simp add: point_hand_def)

text \<open>
  Claim C3, amended. For every hand of 21 landmarks whose average wrist-to-fingertip
  distance \<open>avgTip\<close> (landmarks 4, 8, 12, 16, 20) and average wrist-to-base distance
  \<open>palmSize\<close> (landmarks 5, 9, 13, 17) are not both zero, \<open>computeTension\<close> returns a
  finite tension in \<open>[0, 1]\<close>; it equals
  \<open>clamp(1 - clamp(avgTip / (palmSize * 1.6), 0, 1), 0, 1)\<close> when \<open>palmSize\<close> is not
  zero; \<open>avgTip = 0\<close> yields tension 1, and \<open>avgTip \<ge> 1.6 * palmSize\<close> yields
  tension 0.
\<close>

theorem computeTension_formula:
  assumes len: "length hand = 21"
    and nondeg: "avgTip hand \<noteq> 0 \<or> palmSize hand \<noteq> 0"
  shows "avgTip hand = (\<Sum>i\<leftarrow>[4, 8, 12, 16, 20]. distance3d (hand ! i) (hand ! 0)) / 5
     \<and> palmSize hand = (\<Sum>i\<leftarrow>[5, 9, 13, 17]. distance3d (hand ! i) (hand ! 0)) / 4
     \<and> (\<exists>\<tau>. computeTension hand = Inr (Fin \<tau>) \<and> 0 \<le> \<tau> \<and> \<tau> \<le> 1
           \<and> (palmSize hand \<noteq> 0 \<longrightarrow>
                \<tau> = clamp (1 - clamp (avgTip hand / (palmSize hand * 1.6)) 0 1) 0 1)
           \<and> (avgTip hand = 0 \<longrightarrow> \<tau> = 1)
           \<and> (1.6 * palmSize hand \<le> avgTip hand \<longrightarrow> \<tau> = 0))"
proof (intro conjI)
  have ge: "21 \<le> length hand" using len by simp
  note ct = computeTension_cases [OF ge]
  show "\<exists>\<tau>. computeTension hand = Inr (Fin \<tau>) \<and> 0 \<le> \<tau> \<and> \<tau> \<le> 1
           \<and> (palmSize hand \<noteq> 0 \<longrightarrow>
                \<tau> = clamp (1 - clamp (avgTip hand / (palmSize hand * 1.6)) 0 1) 0 1)
           \<and> (avgTip hand = 0 \<longrightarrow> \<tau> = 1)
           \<and> (1.6 * palmSize hand \<le> avgTip hand \<longrightarrow> \<tau> = 0)"
  proof (cases "palmSize hand = 0")
    case True
    then have "0 < avgTip hand" using nondeg avgTip_nonneg [of hand] by auto
    then show ?thesis using True ct by simp
  next
    case False
    then have pos: "0 < palmSize hand" using palmSize_nonneg [of hand] by simp
    let ?r = "avgTip hand / (palmSize hand * 1.6)"
    let ?t = "clamp (1 - clamp ?r 0 1) 0 1"
    have "computeTension hand = Inr (Fin ?t)" using False ct by simp
    moreover have "0 \<le> ?t \<and> ?t \<le> 1" by (rule clamp_range) simp
    moreover have "?t = 1" if "avgTip hand = 0"
      using that by (simp add: clamp_def)
    moreover have "?t = 0" if "1.6 * palmSize hand \<le> avgTip hand"
    proof -
      have "1 \<le> ?r" using that pos by (simp add: field_simps)
      then show ?thesis by (simp add: clamp_def)
    qed
    ultimately show ?thesis using False by auto
  qed
  show "avgTip hand = (\<Sum>i\<leftarrow>[4, 8, 12, 16, 20]. distance3d (hand ! i) (hand ! 0)) / 5"
    by (simp add: avgTip_def fingerTipIndices_def Let_def)
  show "palmSize hand = (\<Sum>i\<leftarrow>[5, 9, 13, 17]. distance3d (hand ! i) (hand ! 0)) / 4"
    by (simp add: palmSize_def baseIndices_def Let_def)
qed

text \<open>
  Claim C3, witness: the closed fist \<open>test_hand 0.5 0.5 0\<close> has 21 landmarks, base
  distance 1 and fingertip distance 0, and its tension is 1.
\<close>

theorem computeTension_formula_witness:
  "length (test_hand 0.5 0.5 0) = 21 \<and> palmSize (test_hand 0.5 0.5 0) = 1
   \<and> avgTip (test_hand 0.5 0.5 0) = 0
   \<and> computeTension (test_hand 0.5 0.5 0) = Inr (Fin 1)"
  using computeTension_formula [of "test_hand 0.5 0.5 0"]
  by (simp add: length_test_hand palmSize_test_hand avgTip_closed)

subsection \<open>One processed frame\<close>

lemma processFrame_hand:
  assumes "lastVideoTime s \<noteq> t" and "computeTension hand = Inr tension"
  shows "processFrame s (Video t (hand # others))
         = hand_branch (s\<lparr>lastVideoTime := t\<rparr>) hand tension"
  using assms by (simp add: processFrame_def)

lemma processFrame_no_hand:
  assumes "lastVideoTime s \<noteq> t"
  shows "processFrame s (Video t []) = no_hand_branch (s\<lparr>lastVideoTime := t\<rparr>)"
  using assms by (simp add: processFrame_def)

lemma emitted_hasBothHands:
  assumes "emitted (processFrame s tk) = Some c"
  shows "\<not> hasBothHands c \<and> controlsRef (next_state (processFrame s tk)) = c"
  using assms
  by (auto simp: processFrame_def hand_branch_def no_hand_branch_def Let_def
           split: tick.splits list.splits sum.splits if_splits)




text \<open>
  Claim C5. On every processed frame with a detected hand of 21 landmarks a signal is
  emitted. The anchor is the latched wrist position, or the current one if none is
  latched. If the tension exceeds 0.7, the pan becomes \<open>pan * 0.6 + delta * 0.4\<close>, where
  \<open>delta\<close> is the wrist's offset from the anchor times 6.0 with the Y axis inverted, and
  the emitted \<open>panX\<close> and \<open>panY\<close> are the new pan clamped to \<open>[-1, 1]\<close>. Otherwise no
  delta is applied: the pan is only multiplied by 0.85 and the anchor is latched to the
  current wrist.
\<close>

theorem hand_frame_pan:
  assumes fresh: "lastVideoTime s \<noteq> t" and len: "length hand = 21"
  shows "\<exists>tension c.
           computeTension hand = Inr tension
         \<and> emitted (processFrame s (Video t (hand # others))) = Some c
         \<and> (let s' = next_state (processFrame s (Video t (hand # others)));
                 wrist = \<lparr>vx = lm_x (hand ! 0), vy = lm_y (hand ! 0)\<rparr>;
                 anchor = (case baseWristPos s of None \<Rightarrow> wrist | Some b \<Rightarrow> b);
                 dx = (vx wrist - vx anchor) * 6.0;
                 dy = - (vy wrist - vy anchor) * 6.0
             in if js_gt tension (Fin 0.7) then
                  lastPan s' = \<lparr>vx = vx (lastPan s) * 0.6 + dx * 0.4,
                                vy = vy (lastPan s) * 0.6 + dy * 0.4\<rparr>
                  \<and> panX c = clamp (vx (lastPan s')) (- 1) 1
                  \<and> panY c = clamp (vy (lastPan s')) (- 1) 1
                  \<and> - 1 \<le> panX c \<and> panX c \<le> 1 \<and> - 1 \<le> panY c \<and> panY c \<le> 1
                  \<and> baseWristPos s' = Some anchor
                else
                  lastPan s' = \<lparr>vx = vx (lastPan s) * 0.85, vy = vy (lastPan s) * 0.85\<rparr>
                  \<and> panX c = vx (lastPan s') \<and> panY c = vy (lastPan s')
                  \<and> baseWristPos s' = Some wrist)
         \<and> (js_gt tension (Fin 0.7) \<longleftrightarrow> (\<exists>\<tau>. tension = Fin \<tau> \<and> 0.7 < \<tau>))"
proof -
  from computeTension_shape [of hand] len
  obtain tension where ct: "computeTension hand = Inr tension"
    and shape: "tension = NaN \<or> (\<exists>\<tau>. tension = Fin \<tau>)" by auto
  note pf = processFrame_hand [OF fresh ct, of others]
  have gt: "js_gt tension (Fin 0.7) \<longleftrightarrow> (\<exists>\<tau>. tension = Fin \<tau> \<and> 0.7 < \<tau>)"
    using shape by auto
  show ?thesis
    unfolding pf using ct gt clamp_range [of "- 1" 1]
    by (auto simp: hand_branch_def Let_def split: option.splits)
qed

text \<open>
  Claim C5, witness: with the anchor at \<open>(0.4, 0.5)\<close> and no pan, a closed fist at
  \<open>(0.5, 0.6)\<close> gives \<open>delta = (0.6, -0.6)\<close> and the pan \<open>(0.24, -0.24)\<close>.
\<close>

theorem hand_frame_pan_witness:
  "lastVideoTime anchored_tracker \<noteq> 0 \<and> length (test_hand 0.5 0.6 0) = 21
   \<and> lastPan (next_state (processFrame anchored_tracker (Video 0 [test_hand 0.5 0.6 0])))
        = \<lparr>vx = 0.24, vy = - 0.24\<rparr>
   \<and> map_option panX (emitted (processFrame anchored_tracker (Video 0 [test_hand 0.5 0.6 0])))
        = Some 0.24"
  using hand_frame_pan [of anchored_tracker 0 "test_hand 0.5 0.6 0" "[]"]
  by (auto simp: length_test_hand computeTension_closed anchored_tracker_def
        initial_tracker_def test_hand_nth Let_def clamp_def)



text \<open>
  Claim C10. On every processed frame with no detected hand a signal is emitted whose zoom
  field is the zoom of \<open>controlsRef\<close>, and the smoothed zoom is unchanged; only the pan
  fields are recomputed. Whatever the tick, an emitted signal has \<open>hasBothHands = false\<close>
  and is stored in \<open>controlsRef\<close>, so \<open>controlsRef\<close> always holds the signal emitted
  last and the zoom emitted on a no-hand frame is the zoom emitted on the frame before.
\<close>

theorem no_hand_frame_zoom:
  "(lastVideoTime s \<noteq> t \<longrightarrow>
      (\<exists>c. emitted (processFrame s (Video t [])) = Some c
          \<and> zoom c = zoom (controlsRef s)
          \<and> panX c = vx (lastPan s) * 0.9 \<and> panY c = vy (lastPan s) * 0.9)
      \<and> lastZoom (next_state (processFrame s (Video t []))) = lastZoom s)
   \<and> (\<forall>c. emitted (processFrame s tk) = Some c \<longrightarrow>
          \<not> hasBothHands c \<and> controlsRef (next_state (processFrame s tk)) = c)"
  using emitted_hasBothHands [of s tk]
  by (auto simp: processFrame_no_hand no_hand_branch_def Let_def)

text \<open>
  Claim C10, witness: the first frame of a fresh tracker, with no hand, emits zoom 1 (the
  initial zoom of \<open>controlsRef\<close>) with \<open>hasBothHands = false\<close> and keeps the smoothed
  zoom at 1.
\<close>

theorem no_hand_frame_zoom_witness:
  "lastVideoTime initial_tracker \<noteq> 0
   \<and> map_option zoom (emitted (processFrame initial_tracker (Video 0 []))) = Some (Fin 1)
   \<and> lastZoom (next_state (processFrame initial_tracker (Video 0 []))) = Fin 1
   \<and> map_option hasBothHands (emitted (processFrame initial_tracker (Video 0 [])))
        = Some False"
  using no_hand_frame_zoom [of initial_tracker 0 "Video 0 []"]
  by (auto simp: initial_tracker_def)

subsection \<open>The range of the emitted pan\<close>

text \<open>
  Claim C1, at a failing input. A fresh tracker sees a closed fist with the wrist at
  \<open>(0.1, 0.5)\<close>, then the closed fist at \<open>(0.9, 0.5)\<close>: the pan state becomes
  \<open>4.8 * 0.4 = 1.92\<close> and the emitted \<open>panX\<close> is clamped to 1. On the third frame the
  hand opens, or disappears: the pan state is multiplied by 0.85, or by 0.9, and emitted
  as it is, so \<open>panX\<close> is 1.632, or 1.728, outside \<open>[-1, 1]\<close>.
\<close>

theorem pan_unclamped_after_fist:
  "map_option panX (emitted (processFrame initial_tracker (Video 0 [test_hand 0.1 0.5 0])))
     = Some 0
   \<and> map_option panX (emitted (processFrame
        (run_frames initial_tracker [Video 0 [test_hand 0.1 0.5 0]])
        (Video 1 [test_hand 0.9 0.5 0]))) = Some 1
   \<and> map_option panX (emitted (processFrame
        (run_frames initial_tracker
           [Video 0 [test_hand 0.1 0.5 0], Video 1 [test_hand 0.9 0.5 0]])
        (Video 2 [test_hand 0.9 0.5 2]))) = Some 1.632
   \<and> map_option panX (emitted (processFrame
        (run_frames initial_tracker
           [Video 0 [test_hand 0.1 0.5 0], Video 1 [test_hand 0.9 0.5 0]])
        (Video 2 []))) = Some 1.728"
  by (simp add: processFrame_def computeTension_closed computeTension_open hand_branch_def
        no_hand_branch_def initial_tracker_def Let_def test_hand_nth clamp_def)

subsection \<open>Frames without a hand\<close>

lemma no_hand_ticks_Suc:
  "no_hand_ticks ts (Suc K) = Video (ts 0) [] # no_hand_ticks (\<lambda>k. ts (Suc k)) K"
  by (simp only: no_hand_ticks_def map_upt_Suc)

text \<open>
  In the exact arithmetic of the model, \<open>K\<close> frames without a hand scale the pan by
  \<open>0.9 ^ K\<close>; the code rounds each product.
\<close>

lemma run_no_hand_ticks:
  assumes "ts 0 \<noteq> lastVideoTime s" and "\<And>k. ts (Suc k) \<noteq> ts k"
  shows "lastPan (run_frames s (no_hand_ticks ts K))
           = \<lparr>vx = vx (lastPan s) * 0.9 ^ K, vy = vy (lastPan s) * 0.9 ^ K\<rparr>
       \<and> (0 < K \<longrightarrow> baseWristPos (run_frames s (no_hand_ticks ts K)) = None)"
  using assms
proof (induction K arbitrary: s ts)
  case 0
  then show ?case by (simp add: no_hand_ticks_def)
next
  case (Suc K)
  let ?s1 = "next_state (no_hand_branch (s\<lparr>lastVideoTime := ts 0\<rparr>))"
  have fresh: "lastVideoTime s \<noteq> ts 0" using Suc.prems(1) by simp
  have step: "run_frames s (no_hand_ticks ts (Suc K))
                = run_frames ?s1 (no_hand_ticks (\<lambda>k. ts (Suc k)) K)"
    by (simp add: no_hand_ticks_Suc processFrame_no_hand [OF fresh] Let_def no_hand_branch_def)
  have lvt: "ts (Suc 0) \<noteq> lastVideoTime ?s1"
    using Suc.prems(2) [of 0] by (simp add: no_hand_branch_def Let_def)
  have IH: "lastPan (run_frames ?s1 (no_hand_ticks (\<lambda>k. ts (Suc k)) K))
           = \<lparr>vx = vx (lastPan ?s1) * 0.9 ^ K, vy = vy (lastPan ?s1) * 0.9 ^ K\<rparr>
       \<and> (0 < K \<longrightarrow>
            baseWristPos (run_frames ?s1 (no_hand_ticks (\<lambda>k. ts (Suc k)) K)) = None)"
    using Suc.IH [where s = "?s1" and ts = "\<lambda>k. ts (Suc k)"] lvt Suc.prems(2) by simp
  have s1: "lastPan ?s1 = \<lparr>vx = vx (lastPan s) * 0.9, vy = vy (lastPan s) * 0.9\<rparr>"
    "baseWristPos ?s1 = None"
    by (simp_all add: no_hand_branch_def Let_def)
  show ?case
  proof (cases K)
    case 0
    then show ?thesis unfolding step using s1 by (simp add: no_hand_ticks_def)
  next
    case (Suc K')
    then show ?thesis unfolding step using IH s1 by simp
  qed
qed

lemma scaled_norm:
  fixes a b c :: real
  assumes "0 \<le> c"
  shows "sqrt ((a * c) * (a * c) + (b * c) * (b * c)) = c * sqrt (a * a + b * b)"
proof -
  have "(a * c) * (a * c) + (b * c) * (b * c) = (c * c) * (a * a + b * b)"
    by algebra
  then show ?thesis using assms by (simp add: real_sqrt_mult)
qed

lemma pan_magnitude_run:
  assumes "ts 0 \<noteq> lastVideoTime s" and "\<And>k. ts (Suc k) \<noteq> ts k"
  shows "pan_magnitude (run_frames s (no_hand_ticks ts K)) = 0.9 ^ K * pan_magnitude s"
  using run_no_hand_ticks [of ts s K] assms
  by (simp add: pan_magnitude_def scaled_norm)

text \<open>
  Claim C6, at a failing input. The claim lets the pan magnitude decrease strictly on
  every frame without a hand. A fresh tracker has pan \<open>(0, 0)\<close>; after a frame without a
  hand its pan magnitude is still 0, not smaller.
\<close>

theorem no_hand_decay_counterexample:
  "\<not> pan_magnitude (next_state (processFrame initial_tracker (Video 0 [])))
      < pan_magnitude initial_tracker"
  by (simp add: processFrame_def no_hand_branch_def initial_tracker_def pan_magnitude_def
        Let_def)

text \<open>
  Claim C6, amended. On every processed frame with no detected hand the anchor is cleared
  to null and both pan components are multiplied by 0.9. Hence over \<open>K\<close> consecutive
  such frames (each at a video time different from the one before) neither pan component
  grows in absolute value, and the pan magnitude never increases: it is at most what it
  was a frame earlier and at most what it was at the start. Nothing is claimed about a
  strict decrease or a limit: a zero pan stays zero, and in the double arithmetic of the
  code the product \<open>x * 0.9\<close> is rounded, so the smallest subnormal number is mapped to
  itself.
\<close>

theorem no_hand_decay:
  assumes first: "ts 0 \<noteq> lastVideoTime s" and later: "\<forall>k. ts (Suc k) \<noteq> ts k"
  shows "baseWristPos (next_state (processFrame s (Video (ts 0) []))) = None
     \<and> lastPan (next_state (processFrame s (Video (ts 0) [])))
         = \<lparr>vx = vx (lastPan s) * 0.9, vy = vy (lastPan s) * 0.9\<rparr>
     \<and> (0 < K \<longrightarrow> baseWristPos (run_frames s (no_hand_ticks ts K)) = None)
     \<and> \<bar>vx (lastPan (run_frames s (no_hand_ticks ts K)))\<bar> \<le> \<bar>vx (lastPan s)\<bar>
     \<and> \<bar>vy (lastPan (run_frames s (no_hand_ticks ts K)))\<bar> \<le> \<bar>vy (lastPan s)\<bar>
     \<and> pan_magnitude (run_frames s (no_hand_ticks ts (Suc K)))
           \<le> pan_magnitude (run_frames s (no_hand_ticks ts K))
     \<and> pan_magnitude (run_frames s (no_hand_ticks ts K)) \<le> pan_magnitude s"
proof -
  have later': "\<And>k. ts (Suc k) \<noteq> ts k" using later by simp
  have fresh: "lastVideoTime s \<noteq> ts 0" using first by simp
  have mag: "pan_magnitude (run_frames s (no_hand_ticks ts K)) = 0.9 ^ K * pan_magnitude s"
    for K
    using pan_magnitude_run [of ts s K] first later' by simp
  have nonneg: "0 \<le> pan_magnitude s" by (simp add: pan_magnitude_def)
  have one: "baseWristPos (next_state (processFrame s (Video (ts 0) []))) = None
     \<and> lastPan (next_state (processFrame s (Video (ts 0) [])))
         = \<lparr>vx = vx (lastPan s) * 0.9, vy = vy (lastPan s) * 0.9\<rparr>"
    by (simp add: processFrame_no_hand [OF fresh] no_hand_branch_def Let_def)
  note run = run_no_hand_ticks [of ts s K, OF first later']
  have pow: "(0.9::real) ^ K \<le> 1" by (rule power_le_one) simp_all
  have comp: "\<bar>a * 0.9 ^ K\<bar> \<le> \<bar>a\<bar>" for a :: real
    using mult_left_mono [OF pow, of "\<bar>a\<bar>"] by (simp add: abs_mult)
  have step: "pan_magnitude (run_frames s (no_hand_ticks ts (Suc K)))
           \<le> pan_magnitude (run_frames s (no_hand_ticks ts K))"
    using nonneg by (simp add: mag)
  have total: "pan_magnitude (run_frames s (no_hand_ticks ts K)) \<le> pan_magnitude s"
    using mult_right_mono [OF pow nonneg] by (simp add: mag)
  show ?thesis
    using one run comp step total by simp
qed

text \<open>
  Claim C6, witness: from the pan \<open>(0.5, -0.3)\<close>, a frame without a hand at video time 0
  leaves the pan \<open>(0.45, -0.27)\<close>, and after two such frames the first component is at
  most 0.5 in absolute value.
\<close>

theorem no_hand_decay_witness:
  "real 0 \<noteq> lastVideoTime panned_tracker
   \<and> lastPan (next_state (processFrame panned_tracker (Video (real 0) [])))
       = \<lparr>vx = 0.45, vy = - 0.27\<rparr>
   \<and> \<bar>vx (lastPan (run_frames panned_tracker (no_hand_ticks real 2)))\<bar> \<le> 0.5"
  using no_hand_decay [of real panned_tracker 2]
  by (simp add: panned_tracker_def initial_tracker_def)

section \<open>Properties of the geometry generator\<close>

subsection \<open>The random source\<close>

lemma valid_half_rng: "valid_rng half_rng"
  by (simp add: valid_rng_def half_rng_def)

lemma valid_rng_random:
  assumes "valid_rng g"
  shows "0 \<le> fst (random g)" "fst (random g) < 1" "valid_rng (snd (random g))"
  using assms by (simp_all add: valid_rng_def random_def)

lemma valid_rng_rand:
  assumes "valid_rng g" "lo \<le> hi"
  shows "lo \<le> fst (rand lo hi g)" "valid_rng (snd (rand lo hi g))"
  using valid_rng_random [OF assms(1)] assms(2)
  by (simp_all add: rand_def split_beta Let_def)

lemma rand_less:
  assumes "valid_rng g" "lo < hi"
  shows "fst (rand lo hi g) < hi"
proof -
  have u: "fst (random g) < 1" "0 \<le> fst (random g)"
    using valid_rng_random [OF assms(1)] by simp_all
  have "fst (random g) * (hi - lo) < 1 * (hi - lo)"
    using u(1) assms(2) by (intro mult_strict_right_mono) simp_all
  then show ?thesis by (simp add: rand_def split_beta Let_def)
qed

subsection \<open>The loop writes point \<open>i\<close> into triple \<open>i\<close>\<close>

lemma length_generate_loop: "length (fst (generate_loop ty count i ps g)) = length ps"
proof (induction ty count i ps g rule: generate_loop.induct)
  case (1 ty count i ps g)
  show ?case
  proof (cases "i < count")
    case True
    obtain x y z g1 where sp: "shapePoint ty i count g = ((x, y, z), g1)"
      by (metis prod_cases3 surj_pair)
    have "length (fst (generate_loop ty count (i + 1)
                        (ps[i * 3 := x, i * 3 + 1 := y, i * 3 + 2 := z]) g1))
        = length (ps[i * 3 := x, i * 3 + 1 := y, i * 3 + 2 := z])"
      using "1.IH" True sp by simp
    then show ?thesis
      using True sp by (subst generate_loop.simps) simp
  next
    case False
    then show ?thesis by (subst generate_loop.simps) simp
  qed
qed

lemma length_generateGeometry: "length (generateGeometry ty n g) = n * 3"
  by (simp add: generateGeometry_def length_generate_loop)

lemma triple_update:
  assumes "i * 3 + 2 < length ps"
  shows "triple (ps[i * 3 := x, i * 3 + 1 := y, i * 3 + 2 := z]) j
         = (if j = i then (x, y, z) else triple ps j)"
proof (cases "j = i")
  case True
  then show ?thesis using assms by (simp add: triple_def)
next
  case False
  then have "j * 3 \<noteq> i * 3" "j * 3 \<noteq> i * 3 + 1" "j * 3 \<noteq> i * 3 + 2"
    "j * 3 + 1 \<noteq> i * 3" "j * 3 + 1 \<noteq> i * 3 + 1" "j * 3 + 1 \<noteq> i * 3 + 2"
    "j * 3 + 2 \<noteq> i * 3" "j * 3 + 2 \<noteq> i * 3 + 1" "j * 3 + 2 \<noteq> i * 3 + 2"
    by presburger+
  then show ?thesis using False by (simp add: triple_def)
qed

text \<open>
  The invariant of the loop: if every point the \<open>switch\<close> can produce at index \<open>k\<close>
  satisfies \<open>P k\<close>, as long as the random source satisfies \<open>G\<close>, and the triples below
  \<open>i\<close> already satisfy \<open>P\<close>, then every triple of the finished buffer does.
\<close>

lemma generate_loop_triples:
  assumes len: "length ps = count * 3"
    and step: "\<And>k h. k < count \<Longrightarrow> G h \<Longrightarrow>
                 P k (fst (shapePoint ty k count h)) \<and> G (snd (shapePoint ty k count h))"
    and g: "G g"
    and before: "\<And>j. j < i \<Longrightarrow> j < count \<Longrightarrow> P j (triple ps j)"
    and j: "j < count"
  shows "P j (triple (fst (generate_loop ty count i ps g)) j)"
  using len step g before j
proof (induction ty count i ps g rule: generate_loop.induct)
  case (1 ty count i ps g)
  show ?case
  proof (cases "i < count")
    case True
    obtain x y z g1 where sp: "shapePoint ty i count g = ((x, y, z), g1)"
      by (metis prod_cases3 surj_pair)
    let ?ps = "ps[i * 3 := x, i * 3 + 1 := y, i * 3 + 2 := z]"
    have st: "P i (x, y, z) \<and> G g1"
      using "1.prems"(2) [OF True "1.prems"(3)] sp by simp
    have bound: "i * 3 + 2 < length ps"
      using True "1.prems"(1) by simp
    have len': "length ?ps = count * 3" using "1.prems"(1) by simp
    have before': "P k (triple ?ps k)" if "k < i + 1" "k < count" for k
    proof -
      have eq: "triple ?ps k = (if k = i then (x, y, z) else triple ps k)"
        by (rule triple_update [OF bound])
      show ?thesis
      proof (cases "k = i")
        case True
        then show ?thesis using st eq by simp
      next
        case False
        then have "k < i" using that by simp
        then show ?thesis using "1.prems"(4) [of k] that False eq by simp
      qed
    qed
    have "P j (triple (fst (generate_loop ty count (i + 1) ?ps g1)) j)"
      using "1.IH" True sp len' "1.prems"(2) st before' "1.prems"(5) by simp
    then show ?thesis
      using True sp by (subst generate_loop.simps) simp
  next
    case False
    then show ?thesis
      using "1.prems"(4) [of j] "1.prems"(5) by (subst generate_loop.simps) simp
  qed
qed

subsection \<open>Sphere\<close>

lemma spherical_poly:
  fixes r a b c d :: real
  shows "(r * a * c) * (r * a * c) + (r * a * d) * (r * a * d) + (r * b) * (r * b)
         = r * r * (a\<^sup>2 * (c\<^sup>2 + d\<^sup>2) + b\<^sup>2)"
  by algebra

lemma planar_poly:
  fixes r c d :: real
  shows "(r * c) * (r * c) + (r * d) * (r * d) = r * r * (c\<^sup>2 + d\<^sup>2)"
  by algebra

lemma spherical_norm:
  fixes r p t :: real
  shows "(r * sin p * cos t) * (r * sin p * cos t) + (r * sin p * sin t) * (r * sin p * sin t)
     + (r * cos p) * (r * cos p) = r * r"
proof -
  have "(r * sin p * cos t) * (r * sin p * cos t) + (r * sin p * sin t) * (r * sin p * sin t)
     + (r * cos p) * (r * cos p)
     = r * r * ((sin p)\<^sup>2 * ((cos t)\<^sup>2 + (sin t)\<^sup>2) + (cos p)\<^sup>2)"
    by (rule spherical_poly)
  also have "\<dots> = r * r" by simp
  finally show ?thesis .
qed

lemma planar_norm:
  fixes r t :: real
  shows "(r * cos t) * (r * cos t) + (r * sin t) * (r * sin t) = r * r"
proof -
  have "(r * cos t) * (r * cos t) + (r * sin t) * (r * sin t)
        = r * r * ((cos t)\<^sup>2 + (sin t)\<^sup>2)"
    by (rule planar_poly)
  then show ?thesis by simp
qed

lemma dist_randomOnSphere: "dist_origin (fst (randomOnSphere r g)) = \<bar>r\<bar>"
  by (simp add: randomOnSphere_def split_beta Let_def spherical_norm)

lemma valid_randomOnSphere: "valid_rng g \<Longrightarrow> valid_rng (snd (randomOnSphere r g))"
  by (simp add: randomOnSphere_def split_beta Let_def valid_rng_random)

lemma sphere_triples:
  assumes "valid_rng g" "i < n"
  shows "dist_origin (triple (generateGeometry Sphere n g) i) = 1.1"
  unfolding generateGeometry_def
proof (rule generate_loop_triples [where G = valid_rng and P = "\<lambda>_ p. dist_origin p = 1.1"])
  show "length (replicate (n * 3) (0::real)) = n * 3" by simp
  show "i < n" by (rule assms)
  show "valid_rng g" by (rule assms)
  show "dist_origin (fst (shapePoint Sphere k n h)) = 1.1
        \<and> valid_rng (snd (shapePoint Sphere k n h))"
    if "valid_rng h" for k h
    using that by (simp add: dist_randomOnSphere valid_randomOnSphere)
  show "dist_origin (triple (replicate (n * 3) 0) j) = 1.1" if "j < 0" for j
    using that by simp
qed

text \<open>
  Claim C7. For every shape and every point count \<open>N\<close>, \<open>generateGeometry\<close> returns a
  buffer of exactly \<open>3 * N\<close> numbers; for the sphere and 100 points the buffer has
  length 300. When the random draws lie in \<open>[0, 1)\<close>, every triple of the sphere's buffer,
  for 100 points as for any count, lies at distance 1.1 from the origin (in real
  arithmetic, which is the claim's "up to floating tolerance").
\<close>

theorem generateGeometry_buffer:
  "length (generateGeometry ty n g) = 3 * n
   \<and> length (generateGeometry Sphere 100 g) = 300
   \<and> (valid_rng g \<longrightarrow>
        (\<forall>i<100. dist_origin (triple (generateGeometry Sphere 100 g) i) = 1.1)
        \<and> (\<forall>i<n. dist_origin (triple (generateGeometry Sphere n g) i) = 1.1))"
  by (simp add: length_generateGeometry sphere_triples)

text \<open>
  Claim C7, witness: with every draw equal to one half, the sphere's buffer for 100
  points has length 300 and its last triple lies at distance 1.1 from the origin.
\<close>

theorem generateGeometry_buffer_witness:
  "valid_rng half_rng
   \<and> length (generateGeometry Sphere 100 half_rng) = 300
   \<and> dist_origin (triple (generateGeometry Sphere 100 half_rng) 99) = 1.1"
  using generateGeometry_buffer [of Sphere 100 half_rng] valid_half_rng
  by simp

subsection \<open>Flower\<close>

lemma axis_polar: "axis_distance (r * cos t, y, r * sin t) = \<bar>r\<bar>"
  by (simp only: axis_distance.simps planar_norm real_sqrt_abs2)

lemma axis_phyllotaxis:
  "axis_distance (phyllotaxisPoint i n) = sqrt (real i / real n) * 1.25"
proof -
  have "axis_distance (phyllotaxisPoint i n) = \<bar>sqrt (real i / real n) * 1.25\<bar>"
    unfolding phyllotaxisPoint_def Let_def by (rule axis_polar)
  then show ?thesis by simp
qed

lemma y_phyllotaxis:
  "y_coord (phyllotaxisPoint i n) = sin (sqrt (real i / real n) * 1.25 * 1.3) * 0.35"
  by (simp add: phyllotaxisPoint_def Let_def)

lemma phyllotaxis_increasing:
  assumes "Suc i < n"
  shows "axis_distance (phyllotaxisPoint i n) < axis_distance (phyllotaxisPoint (Suc i) n)"
proof -
  have n: "0 < real n" using assms by simp
  have "real i / real n < real (Suc i) / real n"
    using n by (simp add: divide_strict_right_mono)
  then have "sqrt (real i / real n) < sqrt (real (Suc i) / real n)"
    by (rule real_sqrt_less_mono)
  then show ?thesis by (simp add: axis_phyllotaxis)
qed

lemma flower_triples:
  assumes "i < n"
  shows "triple (generateGeometry Flower n g) i = phyllotaxisPoint i n"
  unfolding generateGeometry_def
proof (rule generate_loop_triples [where G = "\<lambda>_. True"
        and P = "\<lambda>k p. p = phyllotaxisPoint k n"])
  show "length (replicate (n * 3) (0::real)) = n * 3" by simp
  show "i < n" by (rule assms)
  show "True" ..
  show "fst (shapePoint Flower k n h) = phyllotaxisPoint k n \<and> True" for k h
    by simp
  show "triple (replicate (n * 3) 0) j = phyllotaxisPoint j n" if "j < 0" for j
    using that by simp
qed

text \<open>The flower's loop hands the random source back untouched.\<close>

lemma flower_rng: "snd (generate_loop Flower n i ps g) = g"
proof (induction Flower n i ps g rule: generate_loop.induct)
  case (1 count i ps g)
  show ?case
  proof (cases "i < count")
    case True
    obtain x y z where sp: "phyllotaxisPoint i count = (x, y, z)"
      by (metis prod_cases3)
    then show ?thesis
      using True "1.hyps" by (subst generate_loop.simps) simp
  next
    case False
    then show ?thesis by (subst generate_loop.simps) simp
  qed
qed

text \<open>The flower's buffer is the same whatever the random source holds.\<close>

lemma flower_independent:
  "fst (generate_loop Flower n i ps g) = fst (generate_loop Flower n i ps g')"
proof (induction "n - i" arbitrary: i ps)
  case 0
  then have "\<not> i < n" by simp
  then show ?case by (simp add: generate_loop.simps [of Flower n i])
next
  case (Suc d)
  then have lt: "i < n" and d: "d = n - (i + 1)" by simp_all
  obtain x y z where pp: "phyllotaxisPoint i n = (x, y, z)"
    by (metis prod_cases3)
  show ?case
    using lt pp Suc.hyps(1) [OF d]
    by (simp add: generate_loop.simps [of Flower n i])
qed

text \<open>
  Claim C8. For the flower shape with \<open>N\<close> points, point \<open>i\<close> of the buffer is
  \<open>phyllotaxisPoint i N\<close>: the buffer does not depend on the random source and the loop
  draws nothing from it. The point's distance from the vertical axis is
  \<open>sqrt(i / N) * 1.25\<close>, which is strictly smaller than that of point \<open>i + 1\<close>, and its
  \<open>y\<close> coordinate is \<open>sin(radius * 1.3) * 0.35\<close>.
\<close>

theorem flower_points:
  assumes "i < n"
  shows "triple (generateGeometry Flower n g) i = phyllotaxisPoint i n
     \<and> generateGeometry Flower n g = generateGeometry Flower n g'
     \<and> snd (generate_loop Flower n 0 (replicate (n * 3) 0) g) = g
     \<and> axis_distance (phyllotaxisPoint i n) = sqrt (real i / real n) * 1.25
     \<and> y_coord (phyllotaxisPoint i n) = sin (sqrt (real i / real n) * 1.25 * 1.3) * 0.35
     \<and> (Suc i < n \<longrightarrow>
          axis_distance (phyllotaxisPoint i n) < axis_distance (phyllotaxisPoint (Suc i) n))"
  using flower_triples [OF assms, of g] flower_independent [of n 0 _ g g'] flower_rng [of n 0 _ g]
    axis_phyllotaxis [of i n] y_phyllotaxis [of i n] phyllotaxis_increasing [of i n]
  by (simp add: generateGeometry_def)

text \<open>
  Claim C8, witness: of 4 points, point 1 lies at distance \<open>sqrt(1/4) * 1.25 = 0.625\<close>
  from the axis, closer than point 2.
\<close>

theorem flower_points_witness:
  "(1::nat) < 4
   \<and> triple (generateGeometry Flower 4 half_rng) 1 = phyllotaxisPoint 1 4
   \<and> axis_distance (phyllotaxisPoint 1 4) = 0.625
   \<and> axis_distance (phyllotaxisPoint 1 4) < axis_distance (phyllotaxisPoint (Suc 1) 4)"
  using flower_points [of 1 4 half_rng half_rng]
  by (simp add: real_sqrt_divide)

subsection \<open>Saturn\<close>

lemma saturn_ring:
  assumes v: "valid_rng g" and ring: "useRing i n"
  shows "on_ring (fst (saturnPoint i n g))"
proof -
  let ?g1 = "snd (rand 1.4 2.1 g)"
  let ?g2 = "snd (rand 0 (pi * 2) ?g1)"
  let ?radius = "fst (rand 1.4 2.1 g)"
  let ?angle = "fst (rand 0 (pi * 2) ?g1)"
  let ?thickness = "fst (rand (- 0.12) 0.12 ?g2)"
  have v1: "valid_rng ?g1" using v by (simp add: valid_rng_rand)
  have v2: "valid_rng ?g2" using v1 by (simp add: valid_rng_rand)
  have r: "1.4 \<le> ?radius" "?radius < 2.1"
    using valid_rng_rand(1) [OF v, of "1.4" "2.1"] rand_less [OF v, of "1.4" "2.1"]
    by simp_all
  have th: "- 0.12 \<le> ?thickness" "?thickness < 0.12"
    using valid_rng_rand(1) [OF v2, of "- 0.12" "0.12"] rand_less [OF v2, of "- 0.12" "0.12"]
    by simp_all
  have p: "fst (saturnPoint i n g) = (?radius * cos ?angle, ?thickness, ?radius * sin ?angle)"
    using ring by (simp add: saturnPoint_def split_beta Let_def)
  have "axis_distance (fst (saturnPoint i n g)) = \<bar>?radius\<bar>"
    unfolding p by (rule axis_polar)
  then have "axis_distance (fst (saturnPoint i n g)) = ?radius" using r by simp
  moreover have "y_coord (fst (saturnPoint i n g)) = ?thickness" unfolding p by simp
  ultimately show ?thesis using r th by (simp add: on_ring_def)
qed

lemma saturn_planet:
  assumes "\<not> useRing i n"
  shows "on_planet (fst (saturnPoint i n g))"
  using assms by (simp add: saturnPoint_def on_planet_def dist_randomOnSphere)

lemma valid_saturnPoint:
  assumes "valid_rng g"
  shows "valid_rng (snd (saturnPoint i n g))"
  using assms
  by (simp add: saturnPoint_def split_beta Let_def valid_rng_rand valid_randomOnSphere)

lemma saturn_triples:
  assumes "valid_rng g" "i < n"
  shows "if useRing i n then on_ring (triple (generateGeometry Saturn n g) i)
         else on_planet (triple (generateGeometry Saturn n g) i)"
  unfolding generateGeometry_def
proof (rule generate_loop_triples [where G = valid_rng
        and P = "\<lambda>k p. if useRing k n then on_ring p else on_planet p"])
  show "length (replicate (n * 3) (0::real)) = n * 3" by simp
  show "i < n" by (rule assms)
  show "valid_rng g" by (rule assms)
  show "(if useRing k n then on_ring (fst (shapePoint Saturn k n h))
         else on_planet (fst (shapePoint Saturn k n h)))
        \<and> valid_rng (snd (shapePoint Saturn k n h))"
    if "valid_rng h" for k h
    using that by (simp add: saturn_ring saturn_planet valid_saturnPoint)
  show "if useRing j n then on_ring (triple (replicate (n * 3) 0) j)
        else on_planet (triple (replicate (n * 3) 0) j)" if "j < 0" for j
    using that by simp
qed

text \<open>A point of the ring is not a point of the planet's shell.\<close>

lemma on_ring_not_planet:
  assumes "on_ring p"
  shows "\<not> on_planet p"
proof -
  obtain x y z where p: "p = (x, y, z)" by (metis prod_cases3)
  have le: "axis_distance p \<le> dist_origin p"
    by (simp add: p)
  have "1.4 \<le> axis_distance p"
    using assms by (simp add: on_ring_def)
  with le have "1.4 \<le> dist_origin p"
    by linarith
  then show ?thesis by (simp add: on_planet_def)
qed

lemma useRing_iff: "0 < n \<Longrightarrow> useRing i n \<longleftrightarrow> 2 * n < 5 * i"
proof -
  assume n: "0 < n"
  have "useRing i n \<longleftrightarrow> 0.4 * real n < real i"
    using n by (simp add: useRing_def field_simps)
  also have "\<dots> \<longleftrightarrow> real (2 * n) < real (5 * i)"
    by auto
  also have "\<dots> \<longleftrightarrow> 2 * n < 5 * i"
    by (rule of_nat_less_iff)
  finally show ?thesis .
qed

lemma planet_count_eq:
  assumes "0 < n"
  shows "planet_count n = 2 * n div 5 + 1"
proof -
  have "{i. i < n \<and> \<not> useRing i n} = {i. i \<le> 2 * n div 5}"
    using assms by (auto simp: useRing_iff)
  then have "card {i. i < n \<and> \<not> useRing i n} = 2 * n div 5 + 1"
    by simp
  moreover have "set (filter (\<lambda>i. \<not> useRing i n) [0..<n]) = {i. i < n \<and> \<not> useRing i n}"
    by auto
  moreover have "planet_count n = card (set (filter (\<lambda>i. \<not> useRing i n) [0..<n]))"
    unfolding planet_count_def by (rule distinct_card [symmetric]) simp
  ultimately show ?thesis by simp
qed

lemma planet_ring_count: "planet_count n + ring_count n = n"
  using sum_length_filter_compl [of "\<lambda>i. useRing i n" "[0..<n]"]
  by (simp add: planet_count_def ring_count_def)

text \<open>
  Claim C2, at a failing input. The claim draws about 60% of the points, by index
  fraction, from the planet's shell. With 1000 points \<open>saturnPoint\<close> takes the planet
  branch for 401 indices and the ring branch for 599; index 500, at fraction 0.5, takes
  the ring branch, and its point in the buffer is not on the shell.
\<close>

theorem saturn_split_counterexample:
  "planet_count 1000 = 401 \<and> ring_count 1000 = 599 \<and> useRing 500 1000
   \<and> \<not> on_planet (triple (generateGeometry Saturn 1000 half_rng) 500)"
proof -
  have planets: "planet_count 1000 = 401"
    using planet_count_eq [of 1000] by simp
  have rings: "ring_count 1000 = 599"
    using planet_ring_count [of 1000] planets by simp
  have ring: "useRing 500 1000"
    by (simp add: useRing_def)
  have "on_ring (triple (generateGeometry Saturn 1000 half_rng) 500)"
    using saturn_triples [OF valid_half_rng, of 500 1000] ring by simp
  then have "\<not> on_planet (triple (generateGeometry Saturn 1000 half_rng) 500)"
    by (rule on_ring_not_planet)
  then show ?thesis using planets rings ring by simp
qed

text \<open>
  Claim C2, amended. For the saturn shape with \<open>N\<close> points and random draws in
  \<open>[0, 1)\<close>, the points with index fraction \<open>i / N \<le> 0.4\<close>, which are
  \<open>floor(2N / 5) + 1\<close> of the \<open>N\<close> (about 40%), lie on a sphere shell of radius 0.55 (the
  planet); the remaining points (about 60%) lie in a flat annulus (the ring) with
  distance from the axis in \<open>[1.4, 2.1]\<close> and thickness noise in \<open>[-0.12, 0.12]\<close>.
\<close>

theorem saturn_split:
  assumes "valid_rng g" "i < n"
  shows "(useRing i n \<longleftrightarrow> 2 * n < 5 * i)
     \<and> (if useRing i n then on_ring (triple (generateGeometry Saturn n g) i)
         else on_planet (triple (generateGeometry Saturn n g) i))
     \<and> planet_count n = 2 * n div 5 + 1
     \<and> ring_count n = n - (2 * n div 5 + 1)"
proof -
  have n: "0 < n" using assms(2) by simp
  have "ring_count n = n - planet_count n"
    using planet_ring_count [of n] by simp
  then show ?thesis
    using saturn_triples [OF assms] useRing_iff [OF n, of i] planet_count_eq [OF n]
    by simp
qed

text \<open>
  Claim C2, witness: of 10 points, index 7 takes the ring branch and its point lies in
  the annulus; 5 indices take the planet branch and 5 the ring branch.
\<close>

theorem saturn_split_witness:
  "valid_rng half_rng \<and> (7::nat) < 10
   \<and> useRing 7 10
   \<and> on_ring (triple (generateGeometry Saturn 10 half_rng) 7)
   \<and> planet_count 10 = 5 \<and> ring_count 10 = 5"
  using saturn_split [of half_rng 7 10] valid_half_rng
  by simp

end
